theory Spec2Isabelle
  imports Main "HOL-Library.Sublist"
begin

section \<open>The tutorial notebook over an abstract library\<close>

text \<open>
  The repository is one Jupyter notebook, \<^verbatim>\<open>notebooks/WebbPSF-Roman_Tutorial.ipynb\<close>.
  Its nine code cells are glue over webbpsf, matplotlib and astropy: every statement is a
  line magic, an import, an item assignment or a call into those libraries, on objects
  reached by attribute reads. None of the library code belongs to the repository, so the
  library is a parameter of the model: a function that answers one primitive action in
  one state of the outside world (objects, figures, files, what the user does in a
  widget) with a value or an exception, and a new world. The front end's display of the
  value of a cell's last expression is not modelled.
\<close>

subsection \<open>Values and primitive actions\<close>

text \<open>
  Python values as far as the notebook writes them: literals, tuples of literals and
  references to objects of the library. \<open>VFloat m e\<close> is the decimal literal
  \<open>m * 10 ^ e\<close>, so \<^verbatim>\<open>1.2e-6\<close> is \<open>VFloat 12 (-7)\<close>.
\<close>

datatype val =
    VNone
  | VBool bool
  | VInt int
  | VFloat int int
  | VStr string
  | VTuple "val list"
  | VObj nat

text \<open>
  What a Python statement asks of the outside: an IPython line magic,
  \<^verbatim>\<open>import m\<close>, \<^verbatim>\<open>from m import n\<close>, \<^verbatim>\<open>o.n\<close>, \<^verbatim>\<open>o.n = v\<close>, \<^verbatim>\<open>o[k] = v\<close> and
  \<^verbatim>\<open>f(args, kw=...)\<close>. The notebook has no statement of the form \<^verbatim>\<open>o.n = v\<close>.
\<close>

datatype action =
    Magic string
  | Import string
  | ImportFrom string string
  | GetAttr val string
  | SetAttr val string val
  | SetItem val val val
  | Call val "val list" "(string \<times> val) list"

datatype 'x exn = NameError string | LibError 'x

text \<open>The log of a session: each action with its result, and each exception raised.\<close>

datatype 'x event = Did action val | Failed action 'x | Unbound string

type_synonym ('w, 'x) lib = "action \<Rightarrow> 'w \<Rightarrow> ('x + val) \<times> 'w"

subsection \<open>The session state\<close>

text \<open>
  The kernel's global namespace holds five names over the whole notebook; a name that no
  cell has bound yet is \<open>None\<close>.
\<close>

record ('w, 'x) state =
  world :: 'w
  trace :: "'x event list"
  matplotlib :: "val option"
  plt :: "val option"
  webbpsf :: "val option"
  wfi :: "val option"
  mono_psf :: "val option"

type_synonym ('w, 'x, 'a) nb =
  "('w, 'x) state \<Rightarrow> ('x exn \<times> ('w, 'x) state) + ('a \<times> ('w, 'x) state)"

definition ret :: "'a \<Rightarrow> ('w, 'x, 'a) nb" where
  "ret a s = Inr (a, s)"

text \<open>Statement sequencing: an exception ends the sequence, as Python's does.\<close>

definition andthen :: "('w, 'x, 'a) nb \<Rightarrow> ('a \<Rightarrow> ('w, 'x, 'b) nb) \<Rightarrow> ('w, 'x, 'b) nb" where
  "andthen m f s = (case m s of Inl e \<Rightarrow> Inl e | Inr (a, s') \<Rightarrow> f a s')"

definition perform :: "('w, 'x) lib \<Rightarrow> action \<Rightarrow> ('w, 'x, val) nb" where
  "perform lib a s =
     (case lib a (world s) of
        (Inl e, w') \<Rightarrow> Inl (LibError e, s\<lparr>world := w', trace := trace s @ [Failed a e]\<rparr>)
      | (Inr v, w') \<Rightarrow> Inr (v, s\<lparr>world := w', trace := trace s @ [Did a v]\<rparr>))"

text \<open>Reading a global name: \<^verbatim>\<open>NameError\<close> when no cell has bound it.\<close>

definition lookup :: "string \<Rightarrow> (('w, 'x) state \<Rightarrow> val option) \<Rightarrow> ('w, 'x, val) nb" where
  "lookup n var s =
     (case var s of
        None \<Rightarrow> Inl (NameError n, s\<lparr>trace := trace s @ [Unbound n]\<rparr>)
      | Some v \<Rightarrow> Inr (v, s))"

definition assign ::
  "((val option \<Rightarrow> val option) \<Rightarrow> ('w, 'x) state \<Rightarrow> ('w, 'x) state) \<Rightarrow> val \<Rightarrow> ('w, 'x, unit) nb" where
  "assign upd v s = Inr ((), upd (\<lambda>_. Some v) s)"

subsection \<open>The code cells\<close>

text \<open>
  \<^verbatim>\<open>
  %matplotlib inline
  import matplotlib
  matplotlib.rcParams['figure.figsize'] = (16, 6)
  matplotlib.rcParams['image.interpolation'] = 'nearest'
  from matplotlib import pyplot as plt
  import webbpsf
  import webbpsf.roman
  \<close>
  \<^verbatim>\<open>import webbpsf.roman\<close> binds the name \<^verbatim>\<open>webbpsf\<close> to what the import gives back,
  the top-level package.
\<close>

definition cell_imports :: "('w, 'x) lib \<Rightarrow> ('w, 'x, unit) nb" where
  "cell_imports lib =
     andthen (perform lib (Magic ''matplotlib inline'')) (\<lambda>_.
     andthen (perform lib (Import ''matplotlib'')) (\<lambda>m.
     andthen (assign matplotlib_update m) (\<lambda>_.
     andthen (lookup ''matplotlib'' matplotlib) (\<lambda>m.
     andthen (perform lib (GetAttr m ''rcParams'')) (\<lambda>rc.
     andthen (perform lib (SetItem rc (VStr ''figure.figsize'') (VTuple [VInt 16, VInt 6]))) (\<lambda>_.
     andthen (lookup ''matplotlib'' matplotlib) (\<lambda>m.
     andthen (perform lib (GetAttr m ''rcParams'')) (\<lambda>rc.
     andthen (perform lib (SetItem rc (VStr ''image.interpolation'') (VStr ''nearest''))) (\<lambda>_.
     andthen (perform lib (ImportFrom ''matplotlib'' ''pyplot'')) (\<lambda>p.
     andthen (assign plt_update p) (\<lambda>_.
     andthen (perform lib (Import ''webbpsf'')) (\<lambda>w.
     andthen (assign webbpsf_update w) (\<lambda>_.
     andthen (perform lib (Import ''webbpsf.roman'')) (\<lambda>w.
     assign webbpsf_update w))))))))))))))"

text \<open>\<^verbatim>\<open>webbpsf.setup_logging()\<close>\<close>

definition cell_logging :: "('w, 'x) lib \<Rightarrow> ('w, 'x, unit) nb" where
  "cell_logging lib =
     andthen (lookup ''webbpsf'' webbpsf) (\<lambda>w.
     andthen (perform lib (GetAttr w ''setup_logging'')) (\<lambda>f.
     andthen (perform lib (Call f [] [])) (\<lambda>_.
     ret ())))"

text \<open>\<^verbatim>\<open>wfi = webbpsf.roman.WFI()\<close>\<close>

definition cell_instrument :: "('w, 'x) lib \<Rightarrow> ('w, 'x, unit) nb" where
  "cell_instrument lib =
     andthen (lookup ''webbpsf'' webbpsf) (\<lambda>w.
     andthen (perform lib (GetAttr w ''roman'')) (\<lambda>r.
     andthen (perform lib (GetAttr r ''WFI'')) (\<lambda>c.
     andthen (perform lib (Call c [] [])) (\<lambda>i.
     assign wfi_update i))))"

text \<open>\<^verbatim>\<open>webbpsf.jupyter_gui.show_notebook_interface_wfi(wfi)\<close>\<close>

definition cell_widget :: "('w, 'x) lib \<Rightarrow> ('w, 'x, unit) nb" where
  "cell_widget lib =
     andthen (lookup ''webbpsf'' webbpsf) (\<lambda>w.
     andthen (perform lib (GetAttr w ''jupyter_gui'')) (\<lambda>g.
     andthen (perform lib (GetAttr g ''show_notebook_interface_wfi'')) (\<lambda>f.
     andthen (lookup ''wfi'' wfi) (\<lambda>i.
     andthen (perform lib (Call f [i] [])) (\<lambda>_.
     ret ())))))"

text \<open>\<^verbatim>\<open>mono_psf = wfi.calc_psf(monochromatic=1.2e-6, display=True)\<close>\<close>

definition cell_calc_psf :: "('w, 'x) lib \<Rightarrow> ('w, 'x, unit) nb" where
  "cell_calc_psf lib =
     andthen (lookup ''wfi'' wfi) (\<lambda>i.
     andthen (perform lib (GetAttr i ''calc_psf'')) (\<lambda>f.
     andthen (perform lib
        (Call f [] [(''monochromatic'', VFloat 12 (-7)), (''display'', VBool True)])) (\<lambda>r.
     assign mono_psf_update r)))"

text \<open>\<^verbatim>\<open>mono_psf.info()\<close>\<close>

definition cell_info :: "('w, 'x) lib \<Rightarrow> ('w, 'x, unit) nb" where
  "cell_info lib =
     andthen (lookup ''mono_psf'' mono_psf) (\<lambda>h.
     andthen (perform lib (GetAttr h ''info'')) (\<lambda>f.
     andthen (perform lib (Call f [] [])) (\<lambda>_.
     ret ())))"

text \<open>\<^verbatim>\<open>webbpsf.display_psf(mono_psf, ext='DET_SAMP')\<close>\<close>

definition cell_display_psf :: "('w, 'x) lib \<Rightarrow> ('w, 'x, unit) nb" where
  "cell_display_psf lib =
     andthen (lookup ''webbpsf'' webbpsf) (\<lambda>w.
     andthen (perform lib (GetAttr w ''display_psf'')) (\<lambda>f.
     andthen (lookup ''mono_psf'' mono_psf) (\<lambda>h.
     andthen (perform lib (Call f [h] [(''ext'', VStr ''DET_SAMP'')])) (\<lambda>_.
     ret ()))))"

text \<open>
  \<^verbatim>\<open>
  plt.figure(figsize=(8, 6))
  webbpsf.display_profiles(mono_psf)
  \<close>
\<close>

definition cell_display_profiles :: "('w, 'x) lib \<Rightarrow> ('w, 'x, unit) nb" where
  "cell_display_profiles lib =
     andthen (lookup ''plt'' plt) (\<lambda>p.
     andthen (perform lib (GetAttr p ''figure'')) (\<lambda>f.
     andthen (perform lib (Call f [] [(''figsize'', VTuple [VInt 8, VInt 6])])) (\<lambda>_.
     andthen (lookup ''webbpsf'' webbpsf) (\<lambda>w.
     andthen (perform lib (GetAttr w ''display_profiles'')) (\<lambda>g.
     andthen (lookup ''mono_psf'' mono_psf) (\<lambda>h.
     andthen (perform lib (Call g [h] [])) (\<lambda>_.
     ret ())))))))"

text \<open>\<^verbatim>\<open>mono_psf.writeto('./mono_psf_1.2um.fits', clobber=True)\<close>\<close>

definition cell_writeto :: "('w, 'x) lib \<Rightarrow> ('w, 'x, unit) nb" where
  "cell_writeto lib =
     andthen (lookup ''mono_psf'' mono_psf) (\<lambda>h.
     andthen (perform lib (GetAttr h ''writeto'')) (\<lambda>f.
     andthen (perform lib
        (Call f [VStr ''./mono_psf_1.2um.fits''] [(''clobber'', VBool True)])) (\<lambda>_.
     ret ())))"

subsection \<open>Running cells\<close>

text \<open>
  The kernel runs one cell after another on the same namespace; a cell that raises ends
  the run.
\<close>

fun run_cells :: "('w, 'x, unit) nb list \<Rightarrow> ('w, 'x, unit) nb" where
  "run_cells [] s = Inr ((), s)"
| "run_cells (c # cs) s = (case c s of Inl e \<Rightarrow> Inl e | Inr (_, s') \<Rightarrow> run_cells cs s')"

definition notebook :: "('w, 'x) lib \<Rightarrow> ('w, 'x, unit) nb list" where
  "notebook lib =
     [cell_imports lib, cell_logging lib, cell_instrument lib, cell_widget lib,
      cell_calc_psf lib, cell_info lib, cell_display_psf lib, cell_display_profiles lib,
      cell_writeto lib]"

definition init :: "'w \<Rightarrow> ('w, 'x) state" where
  "init w = \<lparr>world = w, trace = [], matplotlib = None, plt = None, webbpsf = None,
             wfi = None, mono_psf = None\<rparr>"

definition run_notebook ::
  "('w, 'x) lib \<Rightarrow> 'w \<Rightarrow> ('x exn \<times> ('w, 'x) state) + (unit \<times> ('w, 'x) state)" where
  "run_notebook lib w = run_cells (notebook lib) (init w)"

subsection \<open>Reading the log\<close>









fun is_did :: "'x event \<Rightarrow> bool" where
  "is_did (Did a v) = True"
| "is_did _ = False"

fun raised :: "'x event \<Rightarrow> 'x exn option" where
  "raised (Did a v) = None"
| "raised (Failed a e) = Some (LibError e)"
| "raised (Unbound n) = Some (NameError n)"

fun action_of :: "'x event \<Rightarrow> action option" where
  "action_of (Did a v) = Some a"
| "action_of (Failed a e) = Some a"
| "action_of (Unbound n) = None"

fun is_assignment :: "action \<Rightarrow> bool" where
  "is_assignment (SetAttr obj n v) = True"
| "is_assignment (SetItem obj k v) = True"
| "is_assignment _ = False"

text \<open>The library's answers to a log, replayed from a world, and the world they lead to.\<close>

fun answered :: "('w, 'x) lib \<Rightarrow> 'w \<Rightarrow> 'x event list \<Rightarrow> bool" where
  "answered lib w [] = True"
| "answered lib w (Did a v # es) = (fst (lib a w) = Inr v \<and> answered lib (snd (lib a w)) es)"
| "answered lib w (Failed a e # es) = (fst (lib a w) = Inl e \<and> answered lib (snd (lib a w)) es)"
| "answered lib w (Unbound n # es) = answered lib w es"

fun replay :: "('w, 'x) lib \<Rightarrow> 'w \<Rightarrow> 'x event list \<Rightarrow> 'w" where
  "replay lib w [] = w"
| "replay lib w (Did a v # es) = replay lib (snd (lib a w)) es"
| "replay lib w (Failed a e # es) = replay lib (snd (lib a w)) es"
| "replay lib w (Unbound n # es) = replay lib w es"

definition final :: "('e \<times> 's) + ('a \<times> 's) \<Rightarrow> 's" where
  "final r = (case r of Inl (x, t) \<Rightarrow> t | Inr (a, t) \<Rightarrow> t)"

text \<open>The session state once the first \<open>n\<close> code cells have run, if none of them raised.\<close>

definition state_after :: "nat \<Rightarrow> ('w, 'x) lib \<Rightarrow> 'w \<Rightarrow> ('w, 'x) state option" where
  "state_after n lib w =
     (case run_cells (take n (notebook lib)) (init w) of
        Inl _ \<Rightarrow> None
      | Inr (_, s) \<Rightarrow> Some s)"

subsection \<open>The script of the notebook\<close>





definition same_names :: "('w, 'x) state \<Rightarrow> ('w, 'x) state \<Rightarrow> bool" where
  "same_names s t \<longleftrightarrow>
     matplotlib t = matplotlib s \<and> plt t = plt s \<and> webbpsf t = webbpsf s \<and>
     wfi t = wfi s \<and> mono_psf t = mono_psf s"

text \<open>
  What every computation built from the primitives does to the log and to the world:
  it appends the actions the library answered, stops at the first exception, which it
  hands on, and leaves the world where the library's answers put it.
\<close>

definition sound :: "('w, 'x) lib \<Rightarrow> ('w, 'x, 'a) nb \<Rightarrow> bool" where
  "sound lib m \<longleftrightarrow>
     (\<forall>s. case m s of
        Inl (x, t) \<Rightarrow>
          \<exists>evs ev. trace t = trace s @ evs @ [ev] \<and> list_all is_did evs \<and> raised ev = Some x \<and>
            answered lib (world s) (evs @ [ev]) \<and> world t = replay lib (world s) (evs @ [ev])
      | Inr (a, t) \<Rightarrow>
          \<exists>evs. trace t = trace s @ evs \<and> list_all is_did evs \<and>
            answered lib (world s) evs \<and> world t = replay lib (world s) evs)"




subsection \<open>A stub library\<close>

text \<open>
  A small library to run the notebook on: every action answers with a new object,
  except that the attribute \<open>missing\<close> does not exist, and that the widget function,
  object 0, returns \<^verbatim>\<open>None\<close>. Its world is the number of the next object.
\<close>

definition fresh :: "nat \<Rightarrow> (string + val) \<times> nat" where
  "fresh w = (Inr (VObj w), Suc w)"

definition stub_lib :: "string \<Rightarrow> (nat, string) lib" where
  "stub_lib missing a w =
     (case a of
        GetAttr obj n \<Rightarrow>
          if n = missing then (Inl ''AttributeError'', w)
          else if n = ''show_notebook_interface_wfi'' then (Inr (VObj 0), w)
          else fresh w
      | Call f as kw \<Rightarrow> if f = VObj 0 then (Inr VNone, w) else fresh w
      | _ \<Rightarrow> fresh w)"

definition start :: nat where
  "start = 1"


section \<open>Properties of the interpreter\<close>


lemma answered_append:
  "answered lib w (xs @ ys) \<longleftrightarrow> answered lib w xs \<and> answered lib (replay lib w xs) ys"
  by (induction lib w xs rule: answered.induct) simp_all

lemma replay_append:
  "replay lib w (xs @ ys) = replay lib (replay lib w xs) ys"
  by (induction lib w xs rule: replay.induct) simp_all


lemmas cells =
  cell_imports_def cell_logging_def cell_instrument_def cell_widget_def cell_calc_psf_def
  cell_info_def cell_display_psf_def cell_display_profiles_def cell_writeto_def

subsection \<open>Every computation is sound\<close>

lemma sound_ret: "sound lib (ret a)"
  by (simp add: sound_def ret_def)

lemma sound_perform: "sound lib (perform lib a)"
  unfolding sound_def
proof
  fix s :: "('a, 'b) state"
  show "case perform lib a s of
      Inl (x, t) \<Rightarrow>
        \<exists>evs ev. trace t = trace s @ evs @ [ev] \<and> list_all is_did evs \<and> raised ev = Some x \<and>
          answered lib (world s) (evs @ [ev]) \<and> world t = replay lib (world s) (evs @ [ev])
    | Inr (a, t) \<Rightarrow>
        \<exists>evs. trace t = trace s @ evs \<and> list_all is_did evs \<and>
          answered lib (world s) evs \<and> world t = replay lib (world s) evs"
  proof (cases "lib a (world s)")
    case (Pair r w')
    show ?thesis
    proof (cases r)
      case (Inl e)
      with Pair show ?thesis
        by (auto simp: perform_def intro!: exI[of _ "[]"] exI[of _ "Failed a e"])
    next
      case (Inr v)
      with Pair show ?thesis
        by (auto simp: perform_def intro!: exI[of _ "[Did a v]"])
    qed
  qed
qed

lemma sound_lookup: "sound lib (lookup n var)"
  unfolding sound_def lookup_def
  by (auto split: option.splits intro!: exI[of _ "[]"])

lemma sound_assign:
  assumes "\<And>f s. trace (upd f s) = trace s" and "\<And>f s. world (upd f s) = world s"
  shows "sound lib (assign upd v)"
  using assms by (simp add: sound_def assign_def)

lemma sound_andthen:
  assumes m: "sound lib m" and f: "\<And>a. sound lib (f a)"
  shows "sound lib (andthen m f)"
  unfolding sound_def
proof
  fix s
  show "case andthen m f s of
      Inl (x, t) \<Rightarrow>
        \<exists>evs ev. trace t = trace s @ evs @ [ev] \<and> list_all is_did evs \<and> raised ev = Some x \<and>
          answered lib (world s) (evs @ [ev]) \<and> world t = replay lib (world s) (evs @ [ev])
    | Inr (a, t) \<Rightarrow>
        \<exists>evs. trace t = trace s @ evs \<and> list_all is_did evs \<and>
          answered lib (world s) evs \<and> world t = replay lib (world s) evs"
  proof (cases "m s")
    case (Inl xt)
    then show ?thesis
      using m by (auto simp: sound_def andthen_def split: sum.splits prod.splits dest!: spec[of _ s])
  next
    case (Inr at)
    obtain a s' where at: "at = (a, s')" by (cases at)
    from m Inr at obtain evs where first:
      "trace s' = trace s @ evs" "list_all is_did evs"
      "answered lib (world s) evs" "world s' = replay lib (world s) evs"
      by (auto simp: sound_def split: sum.splits prod.splits dest!: spec[of _ s])
    have eq: "andthen m f s = f a s'"
      using Inr at by (simp add: andthen_def)
    show ?thesis
    proof (cases "f a s'")
      case (Inl xt)
      obtain x t where xt: "xt = (x, t)" by (cases xt)
      from f[of a] Inl xt obtain evs' ev where rest:
        "trace t = trace s' @ evs' @ [ev]" "list_all is_did evs'" "raised ev = Some x"
        "answered lib (world s') (evs' @ [ev])" "world t = replay lib (world s') (evs' @ [ev])"
        by (auto simp: sound_def split: sum.splits prod.splits dest!: spec[of _ s'])
      have "trace t = trace s @ (evs @ evs') @ [ev]"
        using first rest by simp
      moreover have "list_all is_did (evs @ evs')"
        using first rest by simp
      moreover have "answered lib (world s) ((evs @ evs') @ [ev])"
        using first rest by (simp add: answered_append)
      moreover have "world t = replay lib (world s) ((evs @ evs') @ [ev])"
        using first rest by (simp add: replay_append)
      ultimately show ?thesis
        using eq Inl xt rest(3) by (auto simp del: append_assoc)
    next
      case (Inr bt)
      obtain b t where bt: "bt = (b, t)" by (cases bt)
      from f[of a] Inr bt obtain evs' where rest:
        "trace t = trace s' @ evs'" "list_all is_did evs'"
        "answered lib (world s') evs'" "world t = replay lib (world s') evs'"
        by (auto simp: sound_def split: sum.splits prod.splits dest!: spec[of _ s'])
      have "trace t = trace s @ (evs @ evs')"
        using first rest by simp
      moreover have "list_all is_did (evs @ evs')"
        using first rest by simp
      moreover have "answered lib (world s) (evs @ evs')"
        using first rest by (simp add: answered_append)
      moreover have "world t = replay lib (world s) (evs @ evs')"
        using first rest by (simp add: replay_append)
      ultimately show ?thesis
        using eq Inr bt by (auto simp del: append_assoc)
    qed
  qed
qed

lemma run_cells_Nil_ret: "run_cells [] = ret ()"
  by (rule ext) (simp add: ret_def)

lemma run_cells_Cons_andthen: "run_cells (c # cs) = andthen c (\<lambda>_. run_cells cs)"
  by (rule ext) (simp add: andthen_def split: sum.splits)

lemma sound_run_cells:
  assumes "\<And>c. c \<in> set cs \<Longrightarrow> sound lib c"
  shows "sound lib (run_cells cs)"
  using assms
proof (induction cs)
  case Nil
  show ?case unfolding run_cells_Nil_ret by (rule sound_ret)
next
  case (Cons c cs)
  show ?case
    unfolding run_cells_Cons_andthen
    using Cons by (intro sound_andthen) simp_all
qed

lemmas sound_rules = sound_andthen sound_perform sound_lookup sound_ret sound_assign

lemma sound_cells: "c \<in> set (notebook lib) \<Longrightarrow> sound lib c"
  unfolding notebook_def
  by (auto simp: cells intro!: sound_rules)

lemma sound_Inl:
  assumes "sound lib m" and "m s = Inl (x, t)"
  obtains evs ev where "trace t = trace s @ evs @ [ev]" "list_all is_did evs"
    "raised ev = Some x" "answered lib (world s) (evs @ [ev])"
    "world t = replay lib (world s) (evs @ [ev])"
proof -
  from assms(1) have "case m s of
      Inl (x, t) \<Rightarrow>
        \<exists>evs ev. trace t = trace s @ evs @ [ev] \<and> list_all is_did evs \<and> raised ev = Some x \<and>
          answered lib (world s) (evs @ [ev]) \<and> world t = replay lib (world s) (evs @ [ev])
    | Inr (a, t) \<Rightarrow>
        \<exists>evs. trace t = trace s @ evs \<and> list_all is_did evs \<and>
          answered lib (world s) evs \<and> world t = replay lib (world s) evs"
    unfolding sound_def by (rule spec)
  with assms(2) that show thesis by auto
qed

lemma sound_Inr:
  assumes "sound lib m" and "m s = Inr (a, t)"
  obtains evs where "trace t = trace s @ evs" "list_all is_did evs"
    "answered lib (world s) evs" "world t = replay lib (world s) evs"
proof -
  from assms(1) have "case m s of
      Inl (x, t) \<Rightarrow>
        \<exists>evs ev. trace t = trace s @ evs @ [ev] \<and> list_all is_did evs \<and> raised ev = Some x \<and>
          answered lib (world s) (evs @ [ev]) \<and> world t = replay lib (world s) (evs @ [ev])
    | Inr (a, t) \<Rightarrow>
        \<exists>evs. trace t = trace s @ evs \<and> list_all is_did evs \<and>
          answered lib (world s) evs \<and> world t = replay lib (world s) evs"
    unfolding sound_def by (rule spec)
  with assms(2) that show thesis by auto
qed

subsection \<open>What a cell that returns has done\<close>

lemma andthen_Inr: "andthen m f s = Inr (b, t) \<longleftrightarrow> (\<exists>a s'. m s = Inr (a, s') \<and> f a s' = Inr (b, t))"
  by (auto simp: andthen_def split: sum.splits)

lemma perform_Inr: "perform lib a s = Inr (v, t) \<longleftrightarrow>
   (\<exists>w'. lib a (world s) = (Inr v, w') \<and> t = s\<lparr>world := w', trace := trace s @ [Did a v]\<rparr>)"
  by (auto simp: perform_def split: sum.splits prod.splits)

lemma lookup_Inr: "lookup n var s = Inr (v, t) \<longleftrightarrow> var s = Some v \<and> t = s"
  by (auto simp: lookup_def split: option.splits)

lemma assign_Inr: "assign upd v s = Inr (u, t) \<longleftrightarrow> t = upd (\<lambda>_. Some v) s"
  by (auto simp: assign_def)

lemma ret_Inr: "ret a s = Inr (b, t) \<longleftrightarrow> b = a \<and> t = s"
  by (auto simp: ret_def)

lemmas inr = andthen_Inr perform_Inr lookup_Inr assign_Inr ret_Inr



lemma cell_instrument_effect:
  assumes "cell_instrument lib s = Inr (u, t)"
  shows "\<exists>w r c i. webbpsf s = Some w \<and>
    trace t = trace s @
      [Did (GetAttr w ''roman'') r, Did (GetAttr r ''WFI'') c, Did (Call c [] []) i] \<and>
    wfi t = Some i \<and>
    matplotlib t = matplotlib s \<and> plt t = plt s \<and> webbpsf t = webbpsf s \<and> mono_psf t = mono_psf s"
  using assms unfolding cell_instrument_def
  by (clarsimp simp: inr)

lemma cell_widget_effect:
  assumes "cell_widget lib s = Inr (u, t)"
  shows "\<exists>w g f i v. webbpsf s = Some w \<and> wfi s = Some i \<and>
    trace t = trace s @
      [Did (GetAttr w ''jupyter_gui'') g, Did (GetAttr g ''show_notebook_interface_wfi'') f,
       Did (Call f [i] []) v] \<and>
    same_names s t"
  using assms unfolding cell_widget_def same_names_def
  by (clarsimp simp: inr)

lemma cell_calc_psf_effect:
  assumes "cell_calc_psf lib s = Inr (u, t)"
  shows "\<exists>i f r. wfi s = Some i \<and>
    trace t = trace s @
      [Did (GetAttr i ''calc_psf'') f,
       Did (Call f [] [(''monochromatic'', VFloat 12 (-7)), (''display'', VBool True)]) r] \<and>
    mono_psf t = Some r \<and>
    matplotlib t = matplotlib s \<and> plt t = plt s \<and> webbpsf t = webbpsf s \<and> wfi t = wfi s"
  using assms unfolding cell_calc_psf_def
  by (clarsimp simp: inr)

lemma cell_info_effect:
  assumes "cell_info lib s = Inr (u, t)"
  shows "\<exists>h f v. mono_psf s = Some h \<and>
    trace t = trace s @ [Did (GetAttr h ''info'') f, Did (Call f [] []) v] \<and>
    same_names s t"
  using assms unfolding cell_info_def same_names_def
  by (clarsimp simp: inr)

lemma cell_display_psf_effect:
  assumes "cell_display_psf lib s = Inr (u, t)"
  shows "\<exists>w f h v. webbpsf s = Some w \<and> mono_psf s = Some h \<and>
    trace t = trace s @
      [Did (GetAttr w ''display_psf'') f, Did (Call f [h] [(''ext'', VStr ''DET_SAMP'')]) v] \<and>
    same_names s t"
  using assms unfolding cell_display_psf_def same_names_def
  by (clarsimp simp: inr)

lemma cell_display_profiles_effect:
  assumes "cell_display_profiles lib s = Inr (u, t)"
  shows "\<exists>p f v w g h v'. plt s = Some p \<and> webbpsf s = Some w \<and> mono_psf s = Some h \<and>
    trace t = trace s @
      [Did (GetAttr p ''figure'') f, Did (Call f [] [(''figsize'', VTuple [VInt 8, VInt 6])]) v,
       Did (GetAttr w ''display_profiles'') g, Did (Call g [h] []) v'] \<and>
    same_names s t"
  using assms unfolding cell_display_profiles_def same_names_def
  by (clarsimp simp: inr)

lemma cell_writeto_effect:
  assumes "cell_writeto lib s = Inr (u, t)"
  shows "\<exists>h f v. mono_psf s = Some h \<and>
    trace t = trace s @
      [Did (GetAttr h ''writeto'') f,
       Did (Call f [VStr ''./mono_psf_1.2um.fits''] [(''clobber'', VBool True)]) v] \<and>
    same_names s t"
  using assms unfolding cell_writeto_def same_names_def
  by (clarsimp simp: inr)


lemma run_cells_Cons_Inr:
  "run_cells (c # cs) s = Inr (u, t) \<longleftrightarrow> (\<exists>s'. c s = Inr ((), s') \<and> run_cells cs s' = Inr (u, t))"
  by (auto split: sum.splits)

lemma run_cells_Nil_Inr: "run_cells [] s = Inr (u, t) \<longleftrightarrow> t = s"
  by auto

lemma run_notebook_chain:
  assumes "run_notebook lib w0 = Inr (u, s)"
  obtains s1 s2 s3 s4 s5 s6 s7 s8 where
    "cell_imports lib (init w0) = Inr ((), s1)"
    "cell_logging lib s1 = Inr ((), s2)"
    "cell_instrument lib s2 = Inr ((), s3)"
    "cell_widget lib s3 = Inr ((), s4)"
    "cell_calc_psf lib s4 = Inr ((), s5)"
    "cell_info lib s5 = Inr ((), s6)"
    "cell_display_psf lib s6 = Inr ((), s7)"
    "cell_display_profiles lib s7 = Inr ((), s8)"
    "cell_writeto lib s8 = Inr ((), s)"
  using assms unfolding run_notebook_def notebook_def
  by (auto simp: run_cells_Cons_Inr simp del: run_cells.simps(2))

lemma state_after_chain:
  assumes "cell_imports lib (init w0) = Inr ((), s1)"
    "cell_logging lib s1 = Inr ((), s2)"
    "cell_instrument lib s2 = Inr ((), s3)"
    "cell_widget lib s3 = Inr ((), s4)"
    "cell_calc_psf lib s4 = Inr ((), s5)"
    "cell_info lib s5 = Inr ((), s6)"
    "cell_display_psf lib s6 = Inr ((), s7)"
    "cell_display_profiles lib s7 = Inr ((), s8)"
    "cell_writeto lib s8 = Inr ((), s9)"
  shows "state_after 3 lib w0 = Some s3" "state_after 4 lib w0 = Some s4"
    "state_after 5 lib w0 = Some s5" "state_after 6 lib w0 = Some s6"
    "state_after 7 lib w0 = Some s7" "state_after 8 lib w0 = Some s8"
    "state_after 9 lib w0 = Some s9"
  using assms unfolding state_after_def notebook_def
  by simp_all



subsection \<open>What any run logs\<close>

lemma final_Inl [simp]: "final (Inl (x, t)) = t"
  by (simp add: final_def)

lemma final_Inr [simp]: "final (Inr (a, t)) = t"
  by (simp add: final_def)













subsection \<open>The log of a run that returns\<close>

lemma run_notebook_log:
  fixes lib :: "('w, 'x) lib"
  assumes "run_notebook lib w0 = Inr (u, s)"
  obtains s3 s4 s5 s6 s7 s8 w p i h g f0 v0 f5 f1 v1 f2 v2 f3 v3 f4 v4 f v where
    "state_after 3 lib w0 = Some s3" "state_after 4 lib w0 = Some s4"
    "state_after 5 lib w0 = Some s5" "state_after 6 lib w0 = Some s6"
    "state_after 7 lib w0 = Some s7" "state_after 8 lib w0 = Some s8"
    "state_after 9 lib w0 = Some s"
    "wfi s3 = Some i" "wfi s4 = Some i" "wfi s5 = Some i" "wfi s6 = Some i"
    "wfi s7 = Some i" "wfi s8 = Some i" "wfi s = Some i"
    "mono_psf s5 = Some h" "mono_psf s6 = Some h" "mono_psf s7 = Some h"
    "mono_psf s8 = Some h" "mono_psf s = Some h"
    "trace s4 = trace s3 @
       [Did (GetAttr w ''jupyter_gui'') g, Did (GetAttr g ''show_notebook_interface_wfi'') f0,
        Did (Call f0 [i] []) v0]"
    "trace s5 = trace s4 @
       [Did (GetAttr i ''calc_psf'') f5,
        Did (Call f5 [] [(''monochromatic'', VFloat 12 (-7)), (''display'', VBool True)]) h]"
    "trace s6 = trace s5 @ [Did (GetAttr h ''info'') f1, Did (Call f1 [] []) v1]"
    "trace s7 = trace s6 @
       [Did (GetAttr w ''display_psf'') f2, Did (Call f2 [h] [(''ext'', VStr ''DET_SAMP'')]) v2]"
    "trace s8 = trace s7 @
       [Did (GetAttr p ''figure'') f3,
        Did (Call f3 [] [(''figsize'', VTuple [VInt 8, VInt 6])]) v3,
        Did (GetAttr w ''display_profiles'') f4, Did (Call f4 [h] []) v4]"
    "trace s = trace s8 @
       [Did (GetAttr h ''writeto'') f,
        Did (Call f [VStr ''./mono_psf_1.2um.fits''] [(''clobber'', VBool True)]) v]"
    "run_cells (drop 3 (notebook lib)) s3 = Inr ((), s)"
    "run_cells [cell_info lib, cell_display_psf lib, cell_display_profiles lib] s5 = Inr ((), s8)"
proof -
  from assms obtain s1 s2 s3 s4 s5 s6 s7 s8 where c:
    "cell_imports lib (init w0) = Inr ((), s1)"
    "cell_logging lib s1 = Inr ((), s2)"
    "cell_instrument lib s2 = Inr ((), s3)"
    "cell_widget lib s3 = Inr ((), s4)"
    "cell_calc_psf lib s4 = Inr ((), s5)"
    "cell_info lib s5 = Inr ((), s6)"
    "cell_display_psf lib s6 = Inr ((), s7)"
    "cell_display_profiles lib s7 = Inr ((), s8)"
    "cell_writeto lib s8 = Inr ((), s)"
    by (rule run_notebook_chain)
  note after = state_after_chain[OF c]
  from cell_instrument_effect[OF c(3)] obtain i where r3:
    "wfi s3 = Some i" "plt s3 = plt s2" "webbpsf s3 = webbpsf s2"
    by blast
  from cell_widget_effect[OF c(4)] obtain w g f0 i4 v0 where r4:
    "webbpsf s3 = Some w" "wfi s3 = Some i4"
    "trace s4 = trace s3 @
       [Did (GetAttr w ''jupyter_gui'') g, Did (GetAttr g ''show_notebook_interface_wfi'') f0,
        Did (Call f0 [i4] []) v0]"
    "same_names s3 s4"
    by blast
  from r4(2) r3(1) have i4: "i4 = i" by simp
  from r4(4) r3(1) r4(1) have n4: "wfi s4 = Some i" "webbpsf s4 = Some w" "plt s4 = plt s3"
    by (simp_all add: same_names_def)
  from cell_calc_psf_effect[OF c(5)] obtain i5 f5 h where r5:
    "wfi s4 = Some i5"
    "trace s5 = trace s4 @
       [Did (GetAttr i5 ''calc_psf'') f5,
        Did (Call f5 [] [(''monochromatic'', VFloat 12 (-7)), (''display'', VBool True)]) h]"
    "mono_psf s5 = Some h" "plt s5 = plt s4" "webbpsf s5 = webbpsf s4" "wfi s5 = wfi s4"
    by blast
  from r5(1) n4(1) have i5: "i5 = i" by simp
  from r5(5,6) n4 have n5: "wfi s5 = Some i" "webbpsf s5 = Some w" by simp_all
  from cell_info_effect[OF c(6)] obtain h6 f1 v1 where r6:
    "mono_psf s5 = Some h6"
    "trace s6 = trace s5 @ [Did (GetAttr h6 ''info'') f1, Did (Call f1 [] []) v1]"
    "same_names s5 s6"
    by blast
  from r6(1) r5(3) have h6: "h6 = h" by simp
  from r6(3) r5(3) n5 have n6: "mono_psf s6 = Some h" "wfi s6 = Some i" "webbpsf s6 = Some w"
    by (simp_all add: same_names_def)
  from cell_display_psf_effect[OF c(7)] obtain w7 f2 h7 v2 where r7:
    "webbpsf s6 = Some w7" "mono_psf s6 = Some h7"
    "trace s7 = trace s6 @
       [Did (GetAttr w7 ''display_psf'') f2, Did (Call f2 [h7] [(''ext'', VStr ''DET_SAMP'')]) v2]"
    "same_names s6 s7"
    by blast
  from r7(1,2) n6 have h7: "h7 = h" "w7 = w" by simp_all
  from r7(4) n6 have n7: "mono_psf s7 = Some h" "wfi s7 = Some i" "webbpsf s7 = Some w"
    by (simp_all add: same_names_def)
  from cell_display_profiles_effect[OF c(8)] obtain p f3 v3 w8 f4 h8 v4 where r8:
    "plt s7 = Some p" "webbpsf s7 = Some w8" "mono_psf s7 = Some h8"
    "trace s8 = trace s7 @
       [Did (GetAttr p ''figure'') f3,
        Did (Call f3 [] [(''figsize'', VTuple [VInt 8, VInt 6])]) v3,
        Did (GetAttr w8 ''display_profiles'') f4, Did (Call f4 [h8] []) v4]"
    "same_names s7 s8"
    by blast
  from r8(2,3) n7 have h8: "h8 = h" "w8 = w" by simp_all
  from r8(5) n7 have n8: "mono_psf s8 = Some h" "wfi s8 = Some i"
    by (simp_all add: same_names_def)
  from cell_writeto_effect[OF c(9)] obtain h9 f v where r9:
    "mono_psf s8 = Some h9"
    "trace s = trace s8 @
       [Did (GetAttr h9 ''writeto'') f,
        Did (Call f [VStr ''./mono_psf_1.2um.fits''] [(''clobber'', VBool True)]) v]"
    "same_names s8 s"
    by blast
  from r9(1) n8 have h9: "h9 = h" by simp
  from r9(3) n8 have n9: "mono_psf s = Some h" "wfi s = Some i"
    by (simp_all add: same_names_def)
  have tail: "run_cells (drop 3 (notebook lib)) s3 = Inr ((), s)"
    using c(4-9) by (simp add: notebook_def)
  have mid: "run_cells [cell_info lib, cell_display_psf lib, cell_display_profiles lib] s5 = Inr ((), s8)"
    using c(6-8) by simp
  show thesis
    by (rule that[OF after r3(1) n4(1) n5(1) n6(2) n7(2) n8(2) n9(2) r5(3) n6(1) n7(1) n8(1) n9(1)
          r4(3)[unfolded i4] r5(2)[unfolded i5] r6(2)[unfolded h6] r7(3)[unfolded h7]
          r8(4)[unfolded h8] r9(2)[unfolded h9] tail mid])
qed

text \<open>
  In a run that returns, \<^verbatim>\<open>wfi\<close> is bound by the third cell and \<^verbatim>\<open>mono_psf\<close> by the
  fifth, each to one object that it still names after every later cell, and no action
  after the third cell is an attribute or item assignment.
\<close>

lemma names_bound_once:
  fixes lib :: "('w, 'x) lib"
  assumes "run_notebook lib w0 = Inr (u, s)"
  shows "\<exists>s3 i h evs.
     state_after 3 lib w0 = Some s3 \<and>
     (\<forall>k\<in>{3..9}. \<exists>sk. state_after k lib w0 = Some sk \<and> wfi sk = Some i) \<and>
     (\<forall>k\<in>{5..9}. \<exists>sk. state_after k lib w0 = Some sk \<and> mono_psf sk = Some h) \<and>
     trace s = trace s3 @ evs \<and>
     (\<forall>e\<in>set evs. \<forall>a. action_of e = Some a \<longrightarrow> \<not> is_assignment a)"
proof -
  from assms obtain s3 s4 s5 s6 s7 s8 w p i h g f0 v0 f5 f1 v1 f2 v2 f3 v3 f4 v4 f v where
    after: "state_after 3 lib w0 = Some s3" "state_after 4 lib w0 = Some s4"
      "state_after 5 lib w0 = Some s5" "state_after 6 lib w0 = Some s6"
      "state_after 7 lib w0 = Some s7" "state_after 8 lib w0 = Some s8"
      "state_after 9 lib w0 = Some s" and
    inst: "wfi s3 = Some i" "wfi s4 = Some i" "wfi s5 = Some i" "wfi s6 = Some i"
      "wfi s7 = Some i" "wfi s8 = Some i" "wfi s = Some i" and
    psf: "mono_psf s5 = Some h" "mono_psf s6 = Some h" "mono_psf s7 = Some h"
      "mono_psf s8 = Some h" "mono_psf s = Some h" and
    t4: "trace s4 = trace s3 @
       [Did (GetAttr w ''jupyter_gui'') g, Did (GetAttr g ''show_notebook_interface_wfi'') f0,
        Did (Call f0 [i] []) v0]" and
    t5: "trace s5 = trace s4 @
       [Did (GetAttr i ''calc_psf'') f5,
        Did (Call f5 [] [(''monochromatic'', VFloat 12 (-7)), (''display'', VBool True)]) h]" and
    t6: "trace s6 = trace s5 @ [Did (GetAttr h ''info'') f1, Did (Call f1 [] []) v1]" and
    t7: "trace s7 = trace s6 @
       [Did (GetAttr w ''display_psf'') f2, Did (Call f2 [h] [(''ext'', VStr ''DET_SAMP'')]) v2]" and
    t8: "trace s8 = trace s7 @
       [Did (GetAttr p ''figure'') f3,
        Did (Call f3 [] [(''figsize'', VTuple [VInt 8, VInt 6])]) v3,
        Did (GetAttr w ''display_profiles'') f4, Did (Call f4 [h] []) v4]" and
    t9: "trace s = trace s8 @
       [Did (GetAttr h ''writeto'') f,
        Did (Call f [VStr ''./mono_psf_1.2um.fits''] [(''clobber'', VBool True)]) v]"
    by (rule run_notebook_log)
  define evs :: "'x event list" where "evs =
    [Did (GetAttr w ''jupyter_gui'') g, Did (GetAttr g ''show_notebook_interface_wfi'') f0,
     Did (Call f0 [i] []) v0,
     Did (GetAttr i ''calc_psf'') f5,
     Did (Call f5 [] [(''monochromatic'', VFloat 12 (-7)), (''display'', VBool True)]) h,
     Did (GetAttr h ''info'') f1, Did (Call f1 [] []) v1,
     Did (GetAttr w ''display_psf'') f2, Did (Call f2 [h] [(''ext'', VStr ''DET_SAMP'')]) v2,
     Did (GetAttr p ''figure'') f3,
     Did (Call f3 [] [(''figsize'', VTuple [VInt 8, VInt 6])]) v3,
     Did (GetAttr w ''display_profiles'') f4, Did (Call f4 [h] []) v4,
     Did (GetAttr h ''writeto'') f,
     Did (Call f [VStr ''./mono_psf_1.2um.fits''] [(''clobber'', VBool True)]) v]"
  have seg: "trace s = trace s3 @ evs"
    using t4 t5 t6 t7 t8 t9 by (simp add: evs_def)
  have na: "\<forall>e\<in>set evs. \<forall>a. action_of e = Some a \<longrightarrow> \<not> is_assignment a"
    by (simp add: evs_def)
  have inst_all: "\<forall>k\<in>{3..9}. \<exists>sk. state_after k lib w0 = Some sk \<and> wfi sk = Some i"
  proof
    fix k :: nat
    assume "k \<in> {3..9}"
    then have "k = 3 \<or> k = 4 \<or> k = 5 \<or> k = 6 \<or> k = 7 \<or> k = 8 \<or> k = 9" by auto
    then show "\<exists>sk. state_after k lib w0 = Some sk \<and> wfi sk = Some i"
      using after inst by auto
  qed
  have psf_all: "\<forall>k\<in>{5..9}. \<exists>sk. state_after k lib w0 = Some sk \<and> mono_psf sk = Some h"
  proof
    fix k :: nat
    assume "k \<in> {5..9}"
    then have "k = 5 \<or> k = 6 \<or> k = 7 \<or> k = 8 \<or> k = 9" by auto
    then show "\<exists>sk. state_after k lib w0 = Some sk \<and> mono_psf sk = Some h"
      using after psf by auto
  qed
  show ?thesis
    apply (intro exI conjI)
        apply (rule after(1))
       apply (rule inst_all)
      apply (rule psf_all)
     apply (rule seg)
    apply (rule na)
    done
qed

subsection \<open>Every run keeps to the script\<close>














subsection \<open>Runs on the stub library\<close>

lemmas run_defs =
  run_notebook_def notebook_def cells init_def andthen_def perform_def lookup_def assign_def
  ret_def stub_lib_def fresh_def start_def

lemma run_without_gui:
  "run_cells (notebook (stub_lib ''jupyter_gui'')) (init start) =
     Inl (LibError ''AttributeError'',
       \<lparr>world = 15,
        trace =
          [Did (Magic ''matplotlib inline'') (VObj 1),
           Did (Import ''matplotlib'') (VObj 2),
           Did (GetAttr (VObj 2) ''rcParams'') (VObj 3),
           Did (SetItem (VObj 3) (VStr ''figure.figsize'') (VTuple [VInt 16, VInt 6])) (VObj 4),
           Did (GetAttr (VObj 2) ''rcParams'') (VObj 5),
           Did (SetItem (VObj 5) (VStr ''image.interpolation'') (VStr ''nearest'')) (VObj 6),
           Did (ImportFrom ''matplotlib'' ''pyplot'') (VObj 7),
           Did (Import ''webbpsf'') (VObj 8),
           Did (Import ''webbpsf.roman'') (VObj 9),
           Did (GetAttr (VObj 9) ''setup_logging'') (VObj 10),
           Did (Call (VObj 10) [] []) (VObj 11),
           Did (GetAttr (VObj 9) ''roman'') (VObj 12),
           Did (GetAttr (VObj 12) ''WFI'') (VObj 13),
           Did (Call (VObj 13) [] []) (VObj 14),
           Failed (GetAttr (VObj 9) ''jupyter_gui'') ''AttributeError''],
        matplotlib = Some (VObj 2), plt = Some (VObj 7), webbpsf = Some (VObj 9),
        wfi = Some (VObj 14), mono_psf = None\<rparr>)"
  by (simp add: run_defs)



section \<open>The claims\<close>

text \<open>
  C5. The notebook has no exception handling, retry or recovery: whichever cells are
  run, in whichever order, from whichever session state, the first exception (of the
  library, or a \<^verbatim>\<open>NameError\<close>) ends the run and is the run's result unchanged; it is
  the last entry of the log, so no later statement executes, every entry before it is an
  action that the library answered with a value, and a run that returns has met no
  exception at all.
\<close>

theorem exceptions_propagate:
  assumes "set cs \<subseteq> set (notebook lib)"
  shows "case run_cells cs s of
      Inl (x, t) \<Rightarrow>
        \<exists>evs ev. trace t = trace s @ evs @ [ev] \<and> list_all is_did evs \<and> raised ev = Some x \<and>
          answered lib (world s) (evs @ [ev])
    | Inr (u, t) \<Rightarrow>
        \<exists>evs. trace t = trace s @ evs \<and> list_all is_did evs \<and> answered lib (world s) evs"
proof -
  have run: "sound lib (run_cells cs)"
    using assms by (intro sound_run_cells sound_cells) auto
  show ?thesis
  proof (cases "run_cells cs s")
    case (Inl xt)
    obtain x t where xt: "xt = (x, t)" by (cases xt)
    from sound_Inl[OF run] Inl xt show ?thesis by (auto simp del: append_assoc) blast
  next
    case (Inr ut)
    obtain u t where ut: "ut = (u, t)" by (cases ut)
    from sound_Inr[OF run] Inr ut show ?thesis by auto blast
  qed
qed

theorem exceptions_propagate_witness:
  "set (notebook (stub_lib ''jupyter_gui'')) \<subseteq> set (notebook (stub_lib ''jupyter_gui'')) \<and>
   fst (projl (run_cells (notebook (stub_lib ''jupyter_gui'')) (init start))) =
     LibError ''AttributeError'' \<and>
   (\<exists>evs. trace (snd (projl (run_cells (notebook (stub_lib ''jupyter_gui'')) (init start)))) =
       evs @ [Failed (GetAttr (VObj 9) ''jupyter_gui'') ''AttributeError''] \<and>
     list_all is_did evs \<and>
     answered (stub_lib ''jupyter_gui'') start
       (evs @ [Failed (GetAttr (VObj 9) ''jupyter_gui'') ''AttributeError'']))"
proof -
  let ?lib = "stub_lib ''jupyter_gui''"
  let ?s = "init start :: (nat, string) state"
  have "case run_cells (notebook ?lib) ?s of
      Inl (x, t) \<Rightarrow>
        \<exists>evs ev. trace t = trace ?s @ evs @ [ev] \<and> list_all is_did evs \<and>
          raised ev = Some x \<and> answered ?lib (world ?s) (evs @ [ev])
    | Inr (u, t) \<Rightarrow>
        \<exists>evs. trace t = trace ?s @ evs \<and> list_all is_did evs \<and> answered ?lib (world ?s) evs"
    by (rule exceptions_propagate) simp
  then obtain evs ev where run:
    "trace (snd (projl (run_cells (notebook ?lib) ?s))) = evs @ [ev]"
    "list_all is_did evs" "answered ?lib start (evs @ [ev])"
    unfolding run_without_gui by (auto simp: init_def)
  from run(1) have "ev = Failed (GetAttr (VObj 9) ''jupyter_gui'') ''AttributeError''"
    unfolding run_without_gui by (simp add: snoc_eq_iff_butlast eq_commute[of _ "evs @ [ev]"])
  with run show ?thesis
    by (auto simp: run_without_gui)
qed







end
